theory Spec2Isabelle
  imports Main "HOL-Library.Sublist" "HOL-Library.AList"
begin

section \<open>Python strings\<close>

text \<open>
  A Python \<^verbatim>\<open>str\<close> is a \<^typ>\<open>string\<close>; a \<^typ>\<open>char\<close> stands for the code point
  of the same number, so the model covers the texts whose code points lie below 256.
  The character classes and case mappings below are the ones Python applies to these
  code points. Two letters have an upper-case form above 255 (\<open>0xB5\<close> and \<open>0xFF\<close>): the
  model leaves them as they are, which \<open>generate_doc_id\<close> cannot see because it deletes
  every character outside \<open>[A-Za-z0-9]\<close> right after the conversion; a title that
  holds one of the two is outside the model.
\<close>

definition code :: "char \<Rightarrow> nat" where
  "code c = of_char c"

definition between :: "nat \<Rightarrow> nat \<Rightarrow> nat \<Rightarrow> bool" where
  "between lo hi n = (lo \<le> n \<and> n \<le> hi)"

text \<open>The regular-expression class \<^verbatim>\<open>\d\<close>: the decimal digits.\<close>

definition is_digit :: "char \<Rightarrow> bool" where
  "is_digit c = between 48 57 (code c)"

text \<open>The regular-expression class \<^verbatim>\<open>[A-Za-z0-9]\<close>.\<close>

definition is_ascii_alnum :: "char \<Rightarrow> bool" where
  "is_ascii_alnum c =
     (let n = code c in between 65 90 n \<or> between 97 122 n \<or> between 48 57 n)"

text \<open>
  The regular-expression class \<^verbatim>\<open>\w\<close> on a \<^verbatim>\<open>str\<close> pattern: the alphanumeric
  characters and the underscore.
\<close>

definition is_word :: "char \<Rightarrow> bool" where
  "is_word c =
     (let n = code c
      in is_ascii_alnum c \<or> n = 95 \<or> n \<in> set [170, 178, 179, 181, 185, 186, 188, 189, 190]
         \<or> between 192 214 n \<or> between 216 246 n \<or> between 248 255 n)"

text \<open>\<^verbatim>\<open>str.isspace\<close>, the characters that \<^verbatim>\<open>str.strip()\<close> removes.\<close>

definition is_space :: "char \<Rightarrow> bool" where
  "is_space c =
     (let n = code c in between 9 13 n \<or> between 28 32 n \<or> n = 133 \<or> n = 160)"

text \<open>The cased characters, which decide where \<^verbatim>\<open>str.title()\<close> starts a word.\<close>

definition is_cased :: "char \<Rightarrow> bool" where
  "is_cased c =
     (let n = code c
      in between 65 90 n \<or> between 97 122 n \<or> n \<in> set [170, 181, 186]
         \<or> between 192 214 n \<or> between 216 246 n \<or> between 248 255 n)"

definition lower_char :: "char \<Rightarrow> char" where
  "lower_char c =
     (let n = code c
      in if between 65 90 n \<or> between 192 214 n \<or> between 216 222 n
         then char_of (n + 32) else c)"

definition str_lower :: "string \<Rightarrow> string" where
  "str_lower s = map lower_char s"

definition upper_char :: "char \<Rightarrow> string" where
  "upper_char c =
     (let n = code c
      in if between 97 122 n \<or> between 224 246 n \<or> between 248 254 n
         then [char_of (n - 32)]
         else if n = 223 then ''SS'' else [c])"

definition str_upper :: "string \<Rightarrow> string" where
  "str_upper s = concat (map upper_char s)"

definition title_char :: "char \<Rightarrow> string" where
  "title_char c = (if code c = 223 then ''Ss'' else upper_char c)"

text \<open>
  \<^verbatim>\<open>str.title()\<close>: a character that follows a cased character is lower-cased, any
  other character is title-cased.
\<close>

fun title_from :: "bool \<Rightarrow> string \<Rightarrow> string" where
  "title_from previous_is_cased [] = []"
| "title_from previous_is_cased (c # cs) =
     (if previous_is_cased then [lower_char c] else title_char c) @ title_from (is_cased c) cs"

definition str_title :: "string \<Rightarrow> string" where
  "str_title s = title_from False s"

definition str_strip :: "string \<Rightarrow> string" where
  "str_strip s = rev (dropWhile is_space (rev (dropWhile is_space s)))"

text \<open>\<^verbatim>\<open>s.replace(a, b)\<close> for one-character \<open>a\<close> and \<open>b\<close>.\<close>

definition replace_char :: "char \<Rightarrow> char \<Rightarrow> string \<Rightarrow> string" where
  "replace_char a b s = map (\<lambda>c. if c = a then b else c) s"

text \<open>
  \<^verbatim>\<open>s.find(c)\<close> and \<^verbatim>\<open>s.rfind(c)\<close> for a one-character \<open>c\<close>: the index of the first
  (last) occurrence, \<open>-1\<close> when there is none.
\<close>

fun find_from :: "int \<Rightarrow> char \<Rightarrow> string \<Rightarrow> int" where
  "find_from i c [] = -1"
| "find_from i c (x # xs) = (if x = c then i else find_from (i + 1) c xs)"

definition str_find :: "string \<Rightarrow> char \<Rightarrow> int" where
  "str_find s c = find_from 0 c s"

fun rfind_from :: "int \<Rightarrow> int \<Rightarrow> char \<Rightarrow> string \<Rightarrow> int" where
  "rfind_from i found c [] = found"
| "rfind_from i found c (x # xs) = rfind_from (i + 1) (if x = c then i else found) c xs"

definition str_rfind :: "string \<Rightarrow> char \<Rightarrow> int" where
  "str_rfind s c = rfind_from 0 (-1) c s"

text \<open>The slice \<^verbatim>\<open>s[a:b]\<close> for \<open>0 \<le> a\<close> and \<open>0 \<le> b\<close>.\<close>

definition slice :: "string \<Rightarrow> int \<Rightarrow> int \<Rightarrow> string" where
  "slice s a b = take (nat b - nat a) (drop (nat a) s)"

text \<open>\<^verbatim>\<open>sep.join(parts)\<close>.\<close>

fun join :: "string \<Rightarrow> string list \<Rightarrow> string" where
  "join sep [] = []"
| "join sep [x] = x"
| "join sep (x # y # ys) = x @ sep @ join sep (y # ys)"

subsection \<open>The regular expressions of the source\<close>

text \<open>
  Four digits at the head of the text, closed by a word boundary: what \<^verbatim>\<open>\d{4}\b\<close>
  matches at this place.
\<close>

fun four_digits_at :: "string \<Rightarrow> bool" where
  "four_digits_at (a # b # c # d # rest) =
     (is_digit a \<and> is_digit b \<and> is_digit c \<and> is_digit d
      \<and> (case rest of [] \<Rightarrow> True | e # _ \<Rightarrow> \<not> is_word e))"
| "four_digits_at _ = False"

text \<open>What \<^verbatim>\<open>(19|20)\d{2}\b\<close> matches at the head of the text.\<close>

fun year_at :: "string \<Rightarrow> bool" where
  "year_at (a # b # rest) =
     (((a = CHR ''1'' \<and> b = CHR ''9'') \<or> (a = CHR ''2'' \<and> b = CHR ''0''))
      \<and> four_digits_at (a # b # rest))"
| "year_at _ = False"

text \<open>
  \<^verbatim>\<open>re.search(r'\b(19|20)\d{2}\b', s)\<close>: the leftmost match, if any. The flag says
  whether the character before the head is a word character; a digit can start a
  match only where it is not.
\<close>

fun year_search_from :: "bool \<Rightarrow> string \<Rightarrow> string option" where
  "year_search_from previous_is_word [] = None"
| "year_search_from previous_is_word (c # cs) =
     (if \<not> previous_is_word \<and> year_at (c # cs) then Some (take 4 (c # cs))
      else year_search_from (is_word c) cs)"

definition year_search :: "string \<Rightarrow> string option" where
  "year_search s = year_search_from False s"

text \<open>\<^verbatim>\<open>re.sub(r'\b\d{4}\b', '', s)\<close>: every match is deleted, from left to right.\<close>

fun remove_years_from :: "bool \<Rightarrow> string \<Rightarrow> string" where
  "remove_years_from previous_is_word [] = []"
| "remove_years_from previous_is_word (c # cs) =
     (if \<not> previous_is_word \<and> four_digits_at (c # cs)
      then remove_years_from True (drop 3 cs)
      else c # remove_years_from (is_word c) cs)"

definition remove_years :: "string \<Rightarrow> string" where
  "remove_years s = remove_years_from False s"

text \<open>\<^verbatim>\<open>re.findall(r'\d{4}', s)\<close>: the matches from left to right, without overlap.\<close>

fun findall_d4 :: "string \<Rightarrow> string list" where
  "findall_d4 (a # b # c # d # rest) =
     (if is_digit a \<and> is_digit b \<and> is_digit c \<and> is_digit d
      then [a, b, c, d] # findall_d4 rest
      else findall_d4 (b # c # d # rest))"
| "findall_d4 _ = []"

text \<open>\<^verbatim>\<open>re.sub(r'[^A-Za-z0-9]', '', s)\<close>.\<close>

definition keep_alnum :: "string \<Rightarrow> string" where
  "keep_alnum s = filter is_ascii_alnum s"


section \<open>Paths\<close>

text \<open>
  Every \<^verbatim>\<open>Path\<close> the program handles lies under a base directory: \<open>base\<close> holds the
  parts of that directory (none for \<^verbatim>\<open>Path('.')\<close>, the part \<open>/\<close> first for an absolute
  one) and \<open>rel\<close> the path below it, as \<^verbatim>\<open>str(p.relative_to(base))\<close> prints it.
\<close>

record path =
  base :: "string list"
  rel :: string

text \<open>The components of a relative path: the text between the slashes.\<close>

fun split_from :: "string \<Rightarrow> string \<Rightarrow> string list" where
  "split_from cur [] = (if cur = [] then [] else [cur])"
| "split_from cur (c # cs) =
     (if c = CHR ''/'' then (if cur = [] then [] else [cur]) @ split_from [] cs
      else split_from (cur @ [c]) cs)"

definition path_parts :: "path \<Rightarrow> string list" where
  "path_parts p = base p @ filter (\<lambda>part. part \<noteq> ''.'') (split_from [] (rel p))"

definition path_str :: "path \<Rightarrow> string" where
  "path_str p =
     (case path_parts p of
        [] \<Rightarrow> ''.''
      | r # rest \<Rightarrow> if r = ''/'' then ''/'' @ join ''/'' rest else join ''/'' (r # rest))"

definition path_name :: "path \<Rightarrow> string" where
  "path_name p =
     (let ps = path_parts p in if ps = [] \<or> ps = [''/''] then [] else last ps)"

text \<open>
  \<^verbatim>\<open>Path.suffix\<close> and \<^verbatim>\<open>Path.stem\<close>: the name is cut at its last dot, unless that
  dot is the first or the last character of the name.
\<close>

definition path_suffix :: "path \<Rightarrow> string" where
  "path_suffix p =
     (let n = path_name p; i = str_rfind n CHR ''.''
      in if 0 < i \<and> i < int (length n) - 1 then drop (nat i) n else [])"

definition path_stem :: "path \<Rightarrow> string" where
  "path_stem p =
     (let n = path_name p; i = str_rfind n CHR ''.''
      in if 0 < i \<and> i < int (length n) - 1 then take (nat i) n else n)"

text \<open>\<^verbatim>\<open>p.parent / new_name\<close>: the last component of \<open>rel\<close> is replaced.\<close>

definition sibling :: "path \<Rightarrow> string \<Rightarrow> path" where
  "sibling p new_name =
     p\<lparr>rel := rev (dropWhile (\<lambda>c. c \<noteq> CHR ''/'') (rev (rel p))) @ new_name\<rparr>"

section \<open>Values, errors and the world outside\<close>

datatype error = AttributeError | ValueError | KeyError

text \<open>
  A value of the decoded response of the language model. A float is kept as the text
  that \<^verbatim>\<open>repr\<close> prints for it.
\<close>

datatype json =
    JNull
  | JBool bool
  | JInt int
  | JFloat string
  | JStr string
  | JArr "json list"
  | JObj "(string \<times> json) list"

text \<open>Python's truth value, as \<^verbatim>\<open>not metadata[field]\<close> takes it.\<close>

fun truthy :: "json \<Rightarrow> bool" where
  "truthy JNull = False"
| "truthy (JBool b) = b"
| "truthy (JInt i) = (i \<noteq> 0)"
| "truthy (JFloat r) = (r \<noteq> ''0.0'' \<and> r \<noteq> ''-0.0'')"
| "truthy (JStr s) = (s \<noteq> [])"
| "truthy (JArr xs) = (xs \<noteq> [])"
| "truthy (JObj kvs) = (kvs \<noteq> [])"

text \<open>
  A cell of the catalog table: the text of a fresh entry, or what the table reader
  made of a field of the file (a number, a truth value, a float for a missing field).
\<close>

datatype cell = CStr string | CInt int | CFloat string | CBool bool

type_synonym row = "(string \<times> cell) list"

text \<open>
  The metadata dictionary of a resolver, \<^verbatim>\<open>Dict[str, str]\<close> with its nine keys. The
  keys of a response beyond the nine are not kept: nothing reads them.
\<close>

record metadata =
  title :: string
  short_title :: string
  publisher :: string
  year :: string
  language :: string
  country_scope :: string
  summary :: string
  indicators_covered :: string
  evidence_level :: string

text \<open>
  What one \<^verbatim>\<open>requests.post\<close> to the language model comes to: a
  \<^verbatim>\<open>RequestException\<close> (a body that is not JSON counts as one, as in requests 2.27
  and later), a status other than 200, or status 200 with the decoded body.
\<close>

datatype reply = RequestFailed | StatusNot200 | Decoded json

text \<open>
  The catalog file as text: the header and the lines, each a list of fields. Quoting
  and line ends are the business of the CSV reader and writer.
\<close>

type_synonym csv_table = "string list list"

text \<open>
  The collaborators the program calls and does not define: the hash function, the two
  text extractors (\<open>None\<close> when the library raises), the HTTP request to the model for
  a prompt and the number of the attempt, \<^verbatim>\<open>json.loads\<close> on a text that starts with
  \<open>{\<close> and ends with \<open>}\<close> (the object it decodes, \<open>None\<close> for \<^verbatim>\<open>JSONDecodeError\<close>; such
  a text decodes to an object or not at all), the two dates printed from the clock,
  and \<^verbatim>\<open>pd.read_csv\<close> on the catalog file (the rows of the frame, \<open>None\<close> when it
  raises).
\<close>

record world =
  sha256_hexdigest :: "string \<Rightarrow> string"
  pdf_pages :: "string \<Rightarrow> string list option"
  docx_paragraphs :: "string \<Rightarrow> string list option"
  post_generate :: "string \<Rightarrow> nat \<Rightarrow> reply"
  json_loads :: "string \<Rightarrow> (string \<times> json) list option"
  last_reviewed :: string
  next_review_due :: string
  read_csv :: "csv_table \<Rightarrow> row list option"

text \<open>
  The documents below the knowledge base: relative path and bytes, in the order in
  which \<^verbatim>\<open>glob\<close> lists them. Directories are not listed: a directory whose name ends
  like a document, or that bears the new name of a renamed document, is outside the
  model.
\<close>

type_synonym fs = "(string \<times> string) list"

text \<open>The state of the catalog file as \<open>load_existing_catalog\<close> meets it.\<close>

datatype catalog_file = Missing | Unreadable | Table "row list"

record cataloguer =
  kb_path :: "string list"
  sector_mapping :: "(string \<times> string) list"
  existing_catalog :: "(cell \<times> row) list"

section \<open>The cataloguer\<close>

subsection \<open>Loading the catalog\<close>

text \<open>
  The loop over the rows of the table: a row replaces the value stored under its
  \<open>file_path\<close>, keeping the position of the key. A row without that column raises
  \<^verbatim>\<open>KeyError\<close>, which ends the loop with the dictionary built so far. Keys are
  compared by value; for two rows whose path is missing (a float that is not a
  number) Python compares object identities, which the model does not have.
\<close>

fun load_rows :: "(cell \<times> row) list \<Rightarrow> row list \<Rightarrow> (cell \<times> row) list" where
  "load_rows catalog_dict [] = catalog_dict"
| "load_rows catalog_dict (r # rs) =
     (case map_of r ''file_path'' of
        None \<Rightarrow> catalog_dict
      | Some k \<Rightarrow> load_rows (AList.update k r catalog_dict) rs)"

definition load_existing_catalog :: "catalog_file \<Rightarrow> (cell \<times> row) list" where
  "load_existing_catalog f =
     (case f of Missing \<Rightarrow> [] | Unreadable \<Rightarrow> [] | Table rows \<Rightarrow> load_rows [] rows)"

definition init :: "string list \<Rightarrow> catalog_file \<Rightarrow> cataloguer" where
  "init knowledge_base_path f =
     \<lparr>kb_path = knowledge_base_path,
      sector_mapping =
        [(''01_Cross_Cutting_Standards'', ''Cross-Cutting''),
         (''02_Sector_Standards_Policies'', ''Mixed''),
         (''03_Cross_Cutting_Assessment_Guidelines_Tools'', ''Cross-Cutting''),
         (''04_Sector_Assessment_Guidelines_Tools'', ''Mixed''),
         (''05_Gold_Standard_Examples'', ''Mixed''),
         (''Health'', ''Health''),
         (''MHPSS'', ''MHPSS''),
         (''Nutrition'', ''Nutrition''),
         (''WASH'', ''WASH''),
         (''GBV'', ''GBV''),
         (''Child_Protection'', ''Child Protection''),
         (''FSL'', ''FSL'')],
      existing_catalog = load_existing_catalog f\<rparr>"

subsection \<open>Checksum and text extraction\<close>

definition get_file_checksum :: "world \<Rightarrow> fs \<Rightarrow> path \<Rightarrow> string" where
  "get_file_checksum w files file_path =
     (case map_of files (rel file_path) of
        None \<Rightarrow> []
      | Some bytes \<Rightarrow> sha256_hexdigest w bytes)"

definition extract_text_from_pdf :: "world \<Rightarrow> fs \<Rightarrow> path \<Rightarrow> string" where
  "extract_text_from_pdf w files file_path =
     (case map_of files (rel file_path) of
        None \<Rightarrow> []
      | Some bytes \<Rightarrow>
          (case pdf_pages w bytes of
             None \<Rightarrow> []
           | Some pages \<Rightarrow> take 5000 (concat (take 5 pages))))"

definition extract_text_from_docx :: "world \<Rightarrow> fs \<Rightarrow> path \<Rightarrow> string" where
  "extract_text_from_docx w files file_path =
     (case map_of files (rel file_path) of
        None \<Rightarrow> []
      | Some bytes \<Rightarrow>
          (case docx_paragraphs w bytes of
             None \<Rightarrow> []
           | Some paragraphs \<Rightarrow>
               take 5000 (concat (map (\<lambda>p. p @ [CHR 0x0A]) (take 20 paragraphs)))))"

subsection \<open>The fallback resolver\<close>

definition publishers :: "(string \<times> string) list" where
  "publishers =
     [(''sphere'', ''Sphere Project''),
      (''who'', ''WHO''),
      (''unicef'', ''UNICEF''),
      (''unhcr'', ''UNHCR''),
      (''iasc'', ''IASC''),
      (''chs'', ''CHS Alliance''),
      (''imc'', ''IMC'')]"

definition french_hints :: "string list" where
  "french_hints = [''fr'', ''french'', ''fran'' @ [CHR 0xE7] @ ''ais'']"

definition spanish_hints :: "string list" where
  "spanish_hints = [''es'', ''spanish'', ''espa'' @ [CHR 0xF1] @ ''ol'']"

definition arabic_hints :: "string list" where
  "arabic_hints = [''ar'', ''arabic'']"

definition detect_language :: "string \<Rightarrow> string" where
  "detect_language filename =
     (if list_ex (\<lambda>lang. sublist lang (str_lower filename)) french_hints then ''FR''
      else if list_ex (\<lambda>lang. sublist lang (str_lower filename)) spanish_hints then ''ES''
      else if list_ex (\<lambda>lang. sublist lang (str_lower filename)) arabic_hints then ''AR''
      else ''EN'')"

definition detect_publisher :: "string \<Rightarrow> string \<Rightarrow> string" where
  "detect_publisher filename path_lower =
     (case List.find (\<lambda>(key, name). sublist key (str_lower filename) \<or> sublist key path_lower)
             publishers of
        None \<Rightarrow> ''Unknown''
      | Some (key, name) \<Rightarrow> name)"

definition clean_title :: "string \<Rightarrow> string" where
  "clean_title filename =
     str_title (str_strip (remove_years
       (replace_char CHR ''-'' CHR '' '' (replace_char CHR ''_'' CHR '' '' filename))))"

definition get_fallback_metadata :: "cataloguer \<Rightarrow> path \<Rightarrow> metadata" where
  "get_fallback_metadata self file_path =
     (let filename = path_stem file_path;
          path_lower = str_lower (path_str file_path);
          t = clean_title filename
      in \<lparr>title = t,
          short_title = (if length t \<le> 50 then take 50 t else take 47 t @ ''...''),
          publisher = detect_publisher filename path_lower,
          year = (case year_search filename of None \<Rightarrow> ''Unknown'' | Some y \<Rightarrow> y),
          language = detect_language filename,
          country_scope = ''Global'',
          summary = ''Document requires manual review for detailed cataloging'',
          indicators_covered = ''To be determined through manual review'',
          evidence_level = ''unknown''\<rparr>)"

subsection \<open>Classification and identifier\<close>

text \<open>The first pass of \<open>determine_sector\<close>: the first part that is a key of the table.\<close>

fun sector_by_table :: "(string \<times> string) list \<Rightarrow> string list \<Rightarrow> string option" where
  "sector_by_table mapping [] = None"
| "sector_by_table mapping (part # parts) =
     (case map_of mapping part of
        Some sector \<Rightarrow> Some sector
      | None \<Rightarrow> sector_by_table mapping parts)"

text \<open>The second pass: the first part that holds one of the keywords.\<close>

fun sector_by_keyword :: "string list \<Rightarrow> string option" where
  "sector_by_keyword [] = None"
| "sector_by_keyword (part # parts) =
     (let part_lower = str_lower part
      in if sublist ''health'' part_lower \<and> \<not> sublist ''mhpss'' part_lower then Some ''Health''
         else if sublist ''mhpss'' part_lower \<or> sublist ''mental'' part_lower then Some ''MHPSS''
         else if sublist ''nutrition'' part_lower then Some ''Nutrition''
         else if sublist ''wash'' part_lower then Some ''WASH''
         else if sublist ''gbv'' part_lower \<or> sublist ''gender'' part_lower then Some ''GBV''
         else if sublist ''protection'' part_lower then Some ''Child Protection''
         else if sublist ''fsl'' part_lower \<or> sublist ''food'' part_lower then Some ''FSL''
         else sector_by_keyword parts)"

definition determine_sector :: "cataloguer \<Rightarrow> path \<Rightarrow> string" where
  "determine_sector self file_path =
     (case sector_by_table (sector_mapping self) (path_parts file_path) of
        Some sector \<Rightarrow> sector
      | None \<Rightarrow>
          (case sector_by_keyword (path_parts file_path) of
             Some sector \<Rightarrow> sector
           | None \<Rightarrow> ''Cross-Cutting''))"

definition determine_doc_type :: "cataloguer \<Rightarrow> path \<Rightarrow> string \<Rightarrow> string" where
  "determine_doc_type self file_path ttl =
     (let path_lower = str_lower (path_str file_path); title_lower = str_lower ttl
      in if sublist ''standard'' path_lower \<or> sublist ''standard'' title_lower then ''standard''
         else if sublist ''assessment'' path_lower \<or> sublist ''assessment'' title_lower
           then ''assessment_tool''
         else if sublist ''guideline'' path_lower \<or> sublist ''guide'' title_lower then ''guideline''
         else if sublist ''tool'' path_lower \<or> sublist ''tool'' title_lower then ''tool''
         else if sublist ''policy'' path_lower \<or> sublist ''policy'' title_lower then ''policy''
         else if sublist ''example'' path_lower \<or> sublist ''example'' title_lower then ''example''
         else ''resource'')"

definition sector_abbrev :: "(string \<times> string) list" where
  "sector_abbrev =
     [(''Health'', ''HLTH''), (''MHPSS'', ''MHPSS''), (''Nutrition'', ''NUT''),
      (''WASH'', ''WASH''), (''GBV'', ''GBV''), (''Child Protection'', ''CP''),
      (''FSL'', ''FSL''), (''Cross-Cutting'', ''CC''), (''Mixed'', ''MX'')]"

definition type_abbrev :: "(string \<times> string) list" where
  "type_abbrev =
     [(''standard'', ''STD''), (''assessment_tool'', ''ASMT''), (''guideline'', ''GUID''),
      (''tool'', ''TOOL''), (''policy'', ''POL''), (''example'', ''EX''), (''resource'', ''RES'')]"

text \<open>\<^verbatim>\<open>table.get(key, default)\<close>.\<close>

definition get_or :: "(string \<times> string) list \<Rightarrow> string \<Rightarrow> string \<Rightarrow> string" where
  "get_or table key dflt = (case map_of table key of None \<Rightarrow> dflt | Some v \<Rightarrow> v)"

definition generate_doc_id ::
  "cataloguer \<Rightarrow> string \<Rightarrow> string \<Rightarrow> string \<Rightarrow> string \<Rightarrow> string \<Rightarrow> string \<Rightarrow> string" where
  "generate_doc_id self sector doc_type pub ttl yr version =
     (let pub_clean = take 8 (keep_alnum (str_upper pub));
          pub_clean = (if pub_clean = [] then ''UNK'' else pub_clean);
          year_clean = findall_d4 yr;
          year_str = (case year_clean of [] \<Rightarrow> ''UNKN'' | y # _ \<Rightarrow> y)
      in get_or sector_abbrev sector ''GEN'' @ ''_'' @ get_or type_abbrev doc_type ''DOC'' @ ''_''
         @ pub_clean @ ''_'' @ year_str @ ''_'' @ version)"

definition generate_new_filename :: "cataloguer \<Rightarrow> string \<Rightarrow> path \<Rightarrow> string" where
  "generate_new_filename self doc_id original_path = doc_id @ str_lower (path_suffix original_path)"

subsection \<open>The primary resolver\<close>

definition prompt_head :: string where
  \<open>prompt_head = join [CHR 0x0A]
     [''You are a librarian cataloging humanitarian documents. Analyze this document excerpt and extract metadata.'',
      [],
      ''Document excerpt (first 2000 characters):'',
      []]\<close>

definition prompt_tail :: string where
  \<open>prompt_tail = join [CHR 0x0A]
     [[],
      [],
      ''Extract the following information and respond ONLY with valid JSON in this exact format. ALL fields are required:'',
      ''{'',
      ''    "title": "Complete document title from the text",'',
      ''    "short_title": "Abbreviated version under 50 characters", '',
      ''    "publisher": "Organization that published this (WHO, UNICEF, Sphere, etc.)",'',
      ''    "year": "Publication year in YYYY format",'',
      ''    "language": "Language code (EN/FR/ES/AR)",'',
      ''    "country_scope": "Global, Regional, or specific country name",'',
      ''    "summary": "One sentence describing the document's purpose",'',
      ''    "indicators_covered": "Key standards, metrics or indicators mentioned",'',
      ''    "evidence_level": "normative"'',
      ''}'',
      [],
      ''IMPORTANT: You must provide ALL 9 fields. If information is not clear, use these defaults:'',
      ''- year: Use any year mentioned or "2023"'',
      ''- country_scope: Use "Global" if not specified'',
      ''- evidence_level: Use "normative" for standards/frameworks'',
      ''- indicators_covered: Mention key metrics, standards, or guidelines found'',
      [],
      ''Look for:'',
      ''- Title in headers/covers'',
      ''- Publisher logos/names (WHO, UNICEF, Sphere Project, UNHCR, etc.)'',
      ''- Copyright dates or "'' @ [CHR 0xA9] @ '' YYYY"'',
      ''- Geographic focus mentioned in text'',
      ''- Technical standards, indicators, or metrics described'',
      [],
      ''Return only the JSON object, no other text.'']\<close>

definition defaults :: "(string \<times> string) list" where
  "defaults =
     [(''evidence_level'', ''normative''),
      (''country_scope'', ''Global''),
      (''summary'', ''Humanitarian standard or framework document''),
      (''indicators_covered'', ''Quality and accountability standards'')]"

text \<open>
  One round of the validation loop: the value the field has after it. A missing,
  false or blank value is replaced by the default; \<^verbatim>\<open>.strip()\<close> on a true value that
  is not a \<^verbatim>\<open>str\<close> raises \<^verbatim>\<open>AttributeError\<close>.
\<close>

definition field_value :: "(string \<times> json) list \<Rightarrow> string \<Rightarrow> error + string" where
  "field_value metadata field =
     (case map_of metadata field of
        None \<Rightarrow> Inr (get_or defaults field ''Unknown'')
      | Some v \<Rightarrow>
          if \<not> truthy v then Inr (get_or defaults field ''Unknown'')
          else (case v of
                  JStr s \<Rightarrow>
                    if str_strip s = [] then Inr (get_or defaults field ''Unknown'') else Inr s
                | _ \<Rightarrow> Inl AttributeError))"

definition bind_err :: "error + 'a \<Rightarrow> ('a \<Rightarrow> error + 'b) \<Rightarrow> error + 'b" where
  "bind_err r f = (case r of Inl e \<Rightarrow> Inl e | Inr x \<Rightarrow> f x)"

text \<open>
  The loop over \<open>required_fields\<close>, in its order, and the two clean-up steps: the year
  passes through \<^verbatim>\<open>str\<close>, which leaves a \<^verbatim>\<open>str\<close> as it is, and a short title of more
  than 50 characters is cut.
\<close>

definition validate_metadata :: "(string \<times> json) list \<Rightarrow> error + metadata" where
  "validate_metadata m =
     bind_err (field_value m ''title'') (\<lambda>v1.
     bind_err (field_value m ''short_title'') (\<lambda>v2.
     bind_err (field_value m ''publisher'') (\<lambda>v3.
     bind_err (field_value m ''year'') (\<lambda>v4.
     bind_err (field_value m ''language'') (\<lambda>v5.
     bind_err (field_value m ''country_scope'') (\<lambda>v6.
     bind_err (field_value m ''summary'') (\<lambda>v7.
     bind_err (field_value m ''indicators_covered'') (\<lambda>v8.
     bind_err (field_value m ''evidence_level'') (\<lambda>v9.
       Inr \<lparr>title = v1,
            short_title = (if length v2 > 50 then take 47 v2 @ ''...'' else v2),
            publisher = v3, year = v4, language = v5, country_scope = v6,
            summary = v7, indicators_covered = v8, evidence_level = v9\<rparr>)))))))))"

text \<open>
  \<^verbatim>\<open>result.get('response', '').strip()\<close> on the decoded body of a reply with status
  200: a body that is not an object has no \<^verbatim>\<open>get\<close>, and a value that is not a
  \<^verbatim>\<open>str\<close> has no \<^verbatim>\<open>strip\<close>; either raises \<^verbatim>\<open>AttributeError\<close>, which \<open>query_ollama\<close>
  does not catch.
\<close>

definition response_text :: "json \<Rightarrow> error + string option" where
  "response_text result =
     (case result of
        JObj kvs \<Rightarrow>
          (case map_of kvs ''response'' of
             None \<Rightarrow> Inr (Some (str_strip []))
           | Some (JStr s) \<Rightarrow> Inr (Some (str_strip s))
           | Some _ \<Rightarrow> Inl AttributeError)
      | _ \<Rightarrow> Inl AttributeError)"

text \<open>
  The attempts of \<open>query_ollama\<close> from the given one on, as many as are left: a failed
  request or a status other than 200 leads to the next attempt, and \<open>None\<close> is
  returned when none is left.
\<close>

fun query_from :: "world \<Rightarrow> string \<Rightarrow> nat \<Rightarrow> nat \<Rightarrow> error + string option" where
  "query_from w prompt attempt 0 = Inr None"
| "query_from w prompt attempt (Suc remaining) =
     (case post_generate w prompt attempt of
        Decoded result \<Rightarrow> response_text result
      | StatusNot200 \<Rightarrow> query_from w prompt (attempt + 1) remaining
      | RequestFailed \<Rightarrow> query_from w prompt (attempt + 1) remaining)"

definition query_ollama :: "world \<Rightarrow> string \<Rightarrow> nat \<Rightarrow> error + string option" where
  "query_ollama w prompt max_retries = query_from w prompt 0 max_retries"

text \<open>
  The call of \<open>query_ollama\<close>, with its default of three attempts, stands before the
  \<^verbatim>\<open>try\<close> block: what it raises leaves the resolver.
\<close>

definition analyze_document_with_llm ::
  "world \<Rightarrow> cataloguer \<Rightarrow> string \<Rightarrow> path \<Rightarrow> error + metadata" where
  "analyze_document_with_llm w self text_content file_path =
     bind_err (query_ollama w (prompt_head @ take 2000 text_content @ prompt_tail) 3)
       (\<lambda>answer.
          case answer of
            None \<Rightarrow> Inr (get_fallback_metadata self file_path)
          | Some raw \<Rightarrow>
              if raw = [] then Inr (get_fallback_metadata self file_path)
              else
                (let response = str_strip raw;
                     json_start = str_find response CHR ''{'';
                     json_end = str_rfind response CHR ''}'' + 1
                 in if json_start \<noteq> -1 \<and> json_end > json_start
                    then (case json_loads w (slice response json_start json_end) of
                            None \<Rightarrow> Inr (get_fallback_metadata self file_path)
                          | Some m \<Rightarrow> validate_metadata m)
                    else Inr (get_fallback_metadata self file_path)))"

subsection \<open>One document\<close>

text \<open>\<^verbatim>\<open>p.relative_to(other)\<close> raises \<^verbatim>\<open>ValueError\<close> for a path that is not below \<open>other\<close>.\<close>

definition relative_to :: "path \<Rightarrow> string list \<Rightarrow> error + string" where
  "relative_to p other = (if base p = other then Inr (rel p) else Inl ValueError)"

definition catalog_entry ::
  "world \<Rightarrow> path \<Rightarrow> string \<Rightarrow> string \<Rightarrow> metadata \<Rightarrow> string \<Rightarrow> string \<Rightarrow> string \<Rightarrow> row" where
  "catalog_entry w file_path relative_path current_checksum llm_metadata sector doc_type doc_id =
     [(''doc_id'', CStr doc_id),
      (''title'', CStr (title llm_metadata)),
      (''short_title'', CStr (short_title llm_metadata)),
      (''sector'', CStr sector),
      (''doc_type'', CStr doc_type),
      (''doc_source'',
         CStr (if sublist ''External'' (path_str file_path) then ''external'' else ''internal'')),
      (''publisher'', CStr (publisher llm_metadata)),
      (''year'', CStr (year llm_metadata)),
      (''version'', CStr ''v1''),
      (''language'', CStr (language llm_metadata)),
      (''country_scope'', CStr (country_scope llm_metadata)),
      (''license'', CStr []),
      (''license_url'', CStr []),
      (''redistributable'', CStr []),
      (''url'', CStr []),
      (''file_name'', CStr (path_name file_path)),
      (''file_path'', CStr relative_path),
      (''checksum_sha256'', CStr current_checksum),
      (''evidence_level'', CStr (evidence_level llm_metadata)),
      (''last_reviewed'', CStr (last_reviewed w)),
      (''next_review_due'', CStr (next_review_due w)),
      (''supersedes_doc_id'', CStr []),
      (''notes'', CStr (summary llm_metadata)),
      (''indicators_covered'', CStr (indicators_covered llm_metadata)),
      (''page_anchors'', CStr []),
      (''embedding_status'', CStr ''pending''),
      (''embedding_model'', CStr []),
      (''chunk_count'', CStr []),
      (''vector_index_id'', CStr [])]"

text \<open>
  The choice of the extractor by file type; \<open>None\<close> is the unsupported type.
\<close>

definition extract_text :: "world \<Rightarrow> fs \<Rightarrow> path \<Rightarrow> string option" where
  "extract_text w files file_path =
     (if str_lower (path_suffix file_path) = ''.pdf''
      then Some (extract_text_from_pdf w files file_path)
      else if str_lower (path_suffix file_path) = ''.docx''
      then Some (extract_text_from_docx w files file_path)
      else None)"

text \<open>
  The part of \<open>process_document\<close> after the skip test: text extraction, the resolver,
  the classifier and the identifier. \<open>Inr None\<close> is the \<^verbatim>\<open>return None\<close> of an
  unsupported type or an empty text.
\<close>

definition resolve_document ::
  "world \<Rightarrow> cataloguer \<Rightarrow> fs \<Rightarrow> path \<Rightarrow> string \<Rightarrow> string \<Rightarrow> error + row option" where
  "resolve_document w self files file_path relative_path current_checksum =
     (case extract_text w files file_path of
        None \<Rightarrow> Inr None
      | Some text_content \<Rightarrow>
          if text_content = [] then Inr None
          else bind_err (analyze_document_with_llm w self text_content file_path)
            (\<lambda>llm_metadata.
               let sector = determine_sector self file_path;
                   doc_type = determine_doc_type self file_path (title llm_metadata);
                   doc_id = generate_doc_id self sector doc_type (publisher llm_metadata)
                              (title llm_metadata) (year llm_metadata) ''v1''
               in Inr (Some (catalog_entry w file_path relative_path current_checksum
                               llm_metadata sector doc_type doc_id))))"

definition process_document ::
  "world \<Rightarrow> cataloguer \<Rightarrow> fs \<Rightarrow> path \<Rightarrow> bool \<Rightarrow> error + row option" where
  "process_document w self files file_path force_reprocess =
     bind_err (relative_to file_path (kb_path self))
       (\<lambda>relative_path.
          let current_checksum = get_file_checksum w files file_path
          in case (if force_reprocess then None
                   else map_of (existing_catalog self) (CStr relative_path)) of
               Some existing_entry \<Rightarrow>
                 if map_of existing_entry ''checksum_sha256'' = Some (CStr current_checksum)
                 then Inr (Some existing_entry)
                 else resolve_document w self files file_path relative_path current_checksum
             | None \<Rightarrow> resolve_document w self files file_path relative_path current_checksum)"

subsection \<open>Change detection\<close>

text \<open>
  \<^verbatim>\<open>kb_path.glob('**/*' + ext)\<close>: the documents whose name ends with the extension, in
  listing order, letter case counting as it does on a case-sensitive file system.
\<close>

definition glob :: "cataloguer \<Rightarrow> fs \<Rightarrow> string \<Rightarrow> path list" where
  "glob self files ext =
     filter (\<lambda>f. suffix ext (path_name f))
       (map (\<lambda>r. \<lparr>base = kb_path self, rel = r\<rparr>) (map fst files))"

text \<open>The two patterns, hidden names left out, as both scans collect them.\<close>

definition eligible_files :: "cataloguer \<Rightarrow> fs \<Rightarrow> path list" where
  "eligible_files self files =
     concat (map (\<lambda>ext. filter (\<lambda>f. \<not> prefix ''.'' (path_name f)) (glob self files ext))
               [''.pdf'', ''.docx''])"

text \<open>
  \<open>current_files\<close> and \<open>cataloged_files\<close> are sets in the source; the lists here are
  their elements in first-occurrence order, an order the source does not fix.
\<close>

definition scan_for_file_changes :: "cataloguer \<Rightarrow> fs \<Rightarrow> path list \<times> cell list" where
  "scan_for_file_changes self files =
     (let current_files = remdups (map rel (eligible_files self files));
          cataloged_files = remdups (map fst (existing_catalog self));
          new_files = filter (\<lambda>f. CStr f \<notin> set cataloged_files) current_files;
          deleted_files = filter (\<lambda>k. k \<notin> CStr ` set current_files) cataloged_files
      in (map (\<lambda>f. \<lparr>base = kb_path self, rel = f\<rparr>) new_files, deleted_files))"

definition clean_deleted_entries :: "cataloguer \<Rightarrow> cell list \<Rightarrow> row list" where
  "clean_deleted_entries self deleted_files =
     map snd (filter (\<lambda>(file_path, entry). file_path \<notin> set deleted_files)
                (existing_catalog self))"

subsection \<open>Renaming\<close>

text \<open>
  \<open>rename_file\<close> moves the document when the new path differs and is free; a move of a
  file that is not there raises, and the handler returns the original path.
\<close>

definition rename_file :: "fs \<Rightarrow> path \<Rightarrow> string \<Rightarrow> fs \<times> path" where
  "rename_file files original_path new_filename =
     (let new_path = sibling original_path new_filename
      in if new_path \<noteq> original_path \<and> map_of files (rel new_path) = None
            \<and> map_of files (rel original_path) \<noteq> None
         then (map (\<lambda>(r, bytes). if r = rel original_path then (rel new_path, bytes)
                                   else (r, bytes)) files,
               new_path)
         else (files, original_path))"

text \<open>The decimal digits of a number, and the text an f-string prints for a cell.\<close>

fun decimal :: "nat \<Rightarrow> string" where
  "decimal n =
     (if n < 10 then [char_of (48 + n)] else decimal (n div 10) @ [char_of (48 + n mod 10)])"

declare decimal.simps [simp del]

fun cell_str :: "cell \<Rightarrow> string" where
  "cell_str (CStr s) = s"
| "cell_str (CInt i) = (if i < 0 then ''-'' @ decimal (nat (- i)) else decimal (nat i))"
| "cell_str (CFloat r) = r"
| "cell_str (CBool b) = (if b then ''True'' else ''False'')"

subsection \<open>The run over the documents\<close>

text \<open>
  One round of the loop of \<open>catalog_all_documents\<close>. An exception of \<open>process_document\<close>
  is caught and the document left out; so is the \<^verbatim>\<open>KeyError\<close> of an entry without
  \<open>doc_id\<close>. An entry that is an empty dictionary is false and not appended. The
  source updates the entry in place; the entry is always a fresh dictionary there,
  because the loop runs with \<open>force_reprocess\<close> or over paths that are not keys of the
  prior catalog (\<open>new_files_not_catalogued\<close> below), so no other reference sees the
  update.
\<close>

definition process_one ::
  "world \<Rightarrow> cataloguer \<Rightarrow> bool \<Rightarrow> bool \<Rightarrow> path \<Rightarrow> fs \<times> row list \<Rightarrow> fs \<times> row list" where
  "process_one w self rename_files incremental file_path state =
     (case state of (files, catalog_entries) \<Rightarrow>
        (case process_document w self files file_path (\<not> incremental) of
           Inl e \<Rightarrow> (files, catalog_entries)
         | Inr None \<Rightarrow> (files, catalog_entries)
         | Inr (Some entry) \<Rightarrow>
             if entry = [] then (files, catalog_entries)
             else if rename_files then
               (case map_of entry ''doc_id'' of
                  None \<Rightarrow> (files, catalog_entries)
                | Some doc_id \<Rightarrow>
                    (let new_filename = generate_new_filename self (cell_str doc_id) file_path
                     in case rename_file files file_path new_filename of
                          (files', new_path) \<Rightarrow>
                            if new_path \<noteq> file_path
                            then (files',
                                  catalog_entries @
                                    [AList.update ''file_path'' (CStr (rel new_path))
                                       (AList.update ''file_name'' (CStr new_filename) entry)])
                            else (files', catalog_entries @ [entry])))
             else (files, catalog_entries @ [entry])))"

fun process_files ::
  "world \<Rightarrow> cataloguer \<Rightarrow> bool \<Rightarrow> bool \<Rightarrow> path list \<Rightarrow> fs \<times> row list \<Rightarrow> fs \<times> row list" where
  "process_files w self rename_files incremental [] state = state"
| "process_files w self rename_files incremental (file_path # rest) state =
     process_files w self rename_files incremental rest
       (process_one w self rename_files incremental file_path state)"

text \<open>
  \<open>catalog_all_documents\<close> returns the catalog entries; the model returns the documents
  on disk after the renamings with them.
\<close>

definition catalog_all_documents ::
  "world \<Rightarrow> cataloguer \<Rightarrow> fs \<Rightarrow> bool \<Rightarrow> bool \<Rightarrow> fs \<times> row list" where
  "catalog_all_documents w self files rename_files incremental =
     (if incremental
      then (case scan_for_file_changes self files of
              (new_files, deleted_files) \<Rightarrow>
                (let catalog_entries = clean_deleted_entries self deleted_files
                 in if new_files = [] \<and> deleted_files = [] then (files, catalog_entries)
                    else process_files w self rename_files incremental new_files
                           (files, catalog_entries)))
      else process_files w self rename_files incremental (eligible_files self files) (files, []))"

subsection \<open>Saving, and one run of the program\<close>

definition fieldnames :: "string list" where
  "fieldnames =
     [''doc_id'', ''title'', ''short_title'', ''sector'', ''doc_type'', ''doc_source'',
      ''publisher'', ''year'', ''version'', ''language'', ''country_scope'',
      ''license'', ''license_url'', ''redistributable'', ''url'', ''file_name'',
      ''file_path'', ''checksum_sha256'', ''evidence_level'', ''last_reviewed'',
      ''next_review_due'', ''supersedes_doc_id'', ''notes'', ''indicators_covered'',
      ''page_anchors'', ''embedding_status'', ''embedding_model'', ''chunk_count'',
      ''vector_index_id'']"

text \<open>
  The line \<^verbatim>\<open>csv.DictWriter\<close> writes for an entry: its fields in the order of
  \<open>fieldnames\<close>, the empty text for a missing key, and for a cell that is not a
  \<^verbatim>\<open>str\<close> the text \<^verbatim>\<open>str\<close> prints.
\<close>

definition write_row :: "row \<Rightarrow> string list" where
  "write_row entry =
     map (\<lambda>key. case map_of entry key of None \<Rightarrow> [] | Some c \<Rightarrow> cell_str c) fieldnames"

text \<open>
  \<open>save_catalog\<close> writes the header and the entries in turn. An entry with a key
  outside \<open>fieldnames\<close> raises \<^verbatim>\<open>ValueError\<close> when the writer reaches it; the handler
  reports it, and the file holds what was written before.
\<close>

definition save_catalog :: "row list \<Rightarrow> csv_table" where
  "save_catalog catalog_entries =
     fieldnames #
       map write_row
         (takeWhile (\<lambda>entry. list_all (\<lambda>key. key \<in> set fieldnames) (map fst entry))
            catalog_entries)"

text \<open>The catalog file as \<open>load_existing_catalog\<close> finds it: absent, unreadable, or read.\<close>

definition open_catalog :: "world \<Rightarrow> csv_table option \<Rightarrow> catalog_file" where
  "open_catalog w file =
     (case file of
        None \<Rightarrow> Missing
      | Some t \<Rightarrow> (case read_csv w t of None \<Rightarrow> Unreadable | Some rows \<Rightarrow> Table rows))"

text \<open>
  One incremental run of \<open>main\<close> without renaming, once the model has answered the
  start-up check: the cataloguer loads the catalog file, \<open>catalog_all_documents\<close> runs,
  and the file is written again when there is an entry at all. The result is the
  catalog file after the run.
\<close>

definition sync_incremental ::
  "world \<Rightarrow> string list \<Rightarrow> fs \<Rightarrow> csv_table option \<Rightarrow> csv_table option" where
  "sync_incremental w knowledge_base_path files file =
     (let cataloguer = init knowledge_base_path (open_catalog w file);
          catalog_entries = snd (catalog_all_documents w cataloguer files False True)
      in if catalog_entries \<noteq> [] then Some (save_catalog catalog_entries) else file)"

section \<open>Inputs for the examples\<close>

text \<open>
  What \<^verbatim>\<open>pd.read_csv\<close> makes of a table in which no field looks like a number, a
  truth value or one of its markers of a missing value: the column names are the
  keys, a field with text is that text, and an empty field is the float that is not
  a number. An empty file raises.
\<close>

definition read_field :: "string \<Rightarrow> cell" where
  "read_field t = (if t = [] then CFloat ''nan'' else CStr t)"

definition read_csv_text :: "csv_table \<Rightarrow> row list option" where
  "read_csv_text t =
     (case t of
        [] \<Rightarrow> None
      | header # lines \<Rightarrow> Some (map (\<lambda>fields. zip header (map read_field fields)) lines))"

text \<open>
  A knowledge base at \<open>/kb\<close> and two worlds for it. The hash and the extractors are
  stand-ins (the digest is the bytes behind a tag, the text of a document is its
  bytes); the examples depend on them only through equality of digests and emptiness
  of texts. In \<open>world_offline\<close> every request to the language model fails.
\<close>

definition kb0 :: "string list" where
  "kb0 = [''/'', ''kb'']"

definition world_offline :: world where
  "world_offline =
     \<lparr>sha256_hexdigest = (\<lambda>bytes. ''sha:'' @ bytes),
      pdf_pages = (\<lambda>bytes. Some [bytes]),
      docx_paragraphs = (\<lambda>bytes. Some [bytes]),
      post_generate = (\<lambda>prompt attempt. RequestFailed),
      json_loads = (\<lambda>s. None),
      last_reviewed = ''11/04/26'',
      next_review_due = ''11/04/27'',
      read_csv = read_csv_text\<rparr>"

text \<open>
  In \<open>world_int_year\<close> the model answers with an object whose year is a number, and
  \<^verbatim>\<open>json.loads\<close> decodes that text as Python does.
\<close>

definition int_year_response :: string where
  \<open>int_year_response = ''{"title": "Sphere Handbook", "year": 2011}''\<close>

definition world_int_year :: world where
  "world_int_year =
     world_offline
       \<lparr>post_generate :=
          (\<lambda>prompt attempt. Decoded (JObj [(''response'', JStr int_year_response)])),
        json_loads := (\<lambda>s. if s = int_year_response
                             then Some [(''title'', JStr ''Sphere Handbook''), (''year'', JInt 2011)]
                             else None)\<rparr>"

text \<open>A catalog row with the columns the examples read.\<close>

definition example_row :: "string \<Rightarrow> string \<Rightarrow> string \<Rightarrow> row" where
  "example_row doc_id file_path checksum =
     [(''doc_id'', CStr doc_id), (''license'', CStr ''CC-BY''),
      (''file_path'', CStr file_path), (''checksum_sha256'', CStr checksum)]"

text \<open>
  Two catalogued documents and the files on disk: \<open>two_files\<close> holds both, the first
  with bytes that no longer match its catalogued checksum; in \<open>torn_files\<close> the first
  is an empty file, from which no text can be extracted. \<open>one_file\<close> is a knowledge
  base with a single document.
\<close>

definition two_rows :: "row list" where
  "two_rows = [example_row ''WASH_STD_WHO_2011_v1'' ''WASH/a.pdf'' ''sha:old bytes'',
               example_row ''CC_GUID_IASC_2019_v1'' ''b.docx'' ''sha:b'']"

definition two_files :: fs where
  "two_files = [(''WASH/a.pdf'', ''new bytes''), (''b.docx'', ''b'')]"

definition torn_files :: fs where
  "torn_files = [(''WASH/a.pdf'', []), (''b.docx'', ''b'')]"

definition one_file :: fs where
  "one_file = [(''WASH/Sphere Handbook.pdf'', ''%PDF'')]"

text \<open>
  The catalog file after the first and after the second incremental run over
  \<open>one_file\<close>, as \<open>second_run_rewrites_empty_fields\<close> below finds them.
\<close>

definition first_catalog :: csv_table where
  "first_catalog =
     [fieldnames,
      [''WASH_RES_SPHEREPR_UNKN_v1'', ''Sphere Handbook'', ''Sphere Handbook'',
       ''WASH'', ''resource'', ''internal'', ''Sphere Project'', ''Unknown'',
       ''v1'', ''EN'', ''Global'', [], [], [], [], ''Sphere Handbook.pdf'',
       ''WASH/Sphere Handbook.pdf'', ''sha:%PDF'', ''unknown'', ''11/04/26'',
       ''11/04/27'', [],
       ''Document requires manual review for detailed cataloging'',
       ''To be determined through manual review'', [], ''pending'', [], [], []]]"

definition second_catalog :: csv_table where
  "second_catalog =
     [fieldnames,
      [''WASH_RES_SPHEREPR_UNKN_v1'', ''Sphere Handbook'', ''Sphere Handbook'',
       ''WASH'', ''resource'', ''internal'', ''Sphere Project'', ''Unknown'',
       ''v1'', ''EN'', ''Global'', ''nan'', ''nan'', ''nan'', ''nan'',
       ''Sphere Handbook.pdf'', ''WASH/Sphere Handbook.pdf'', ''sha:%PDF'',
       ''unknown'', ''11/04/26'', ''11/04/27'', ''nan'',
       ''Document requires manual review for detailed cataloging'',
       ''To be determined through manual review'', ''nan'', ''pending'',
       ''nan'', ''nan'', ''nan'']]"

section \<open>Properties\<close>

subsection \<open>The identifier\<close>

text \<open>
  Claim C6. For sector \<open>WASH\<close>, type \<open>standard\<close>, publisher \<open>Sphere Project!!\<close> and year
  \<open>circa 2011\<close>, with any title and the default version \<open>v1\<close>, \<open>generate_doc_id\<close>
  returns \<open>WASH_STD_SPHEREPR_2011_v1\<close>: the publisher is upper-cased, loses its
  non-alphanumeric characters and is cut to eight characters, and the year is the first
  run of four digits.
\<close>

theorem generate_doc_id_sphere:
  "generate_doc_id self ''WASH'' ''standard'' ''Sphere Project!!'' ttl ''circa 2011'' ''v1''
     = ''WASH_STD_SPHEREPR_2011_v1''"
  by code_simp

subsection \<open>The resolvers\<close>

text \<open>
  Claim C3 says that \<open>analyze_document_with_llm\<close> never raises. It does: when the model
  answers \<open>{"title": "Sphere Handbook", "year": 2011}\<close>, the year is a true value
  without \<^verbatim>\<open>.strip()\<close>, and the \<^verbatim>\<open>AttributeError\<close> of the validation loop is not among
  the exceptions the function catches. This holds for every document and every text.
  (A reply whose \<open>response\<close> is not a text raises the same error one step earlier, in
  \<open>query_ollama\<close>.)
\<close>

theorem analyze_raises_on_number:
  "analyze_document_with_llm world_int_year self text_content file_path = Inl AttributeError"
  by code_simp

text \<open>
  The validation loop of the primary resolver leaves no field empty: a value is kept
  only if something remains of it after \<^verbatim>\<open>.strip()\<close>, and every default is a non-empty
  text.
\<close>

lemma default_nonempty: "get_or defaults field ''Unknown'' \<noteq> []"
  by (simp add: get_or_def defaults_def)

lemma field_value_nonempty: "field_value m field = Inr v \<Longrightarrow> v \<noteq> []"
  by (auto simp: field_value_def default_nonempty str_strip_def
        split: option.splits if_splits json.splits)

lemma bind_err_Inr: "bind_err r f = Inr y \<longleftrightarrow> (\<exists>x. r = Inr x \<and> f x = Inr y)"
  by (cases r) (simp_all add: bind_err_def)

lemma validated_fields_nonempty:
  assumes "validate_metadata m = Inr md"
  shows "title md \<noteq> [] \<and> short_title md \<noteq> [] \<and> publisher md \<noteq> [] \<and> year md \<noteq> []
         \<and> language md \<noteq> [] \<and> country_scope md \<noteq> [] \<and> summary md \<noteq> []
         \<and> indicators_covered md \<noteq> [] \<and> evidence_level md \<noteq> []"
proof -
  from assms obtain v1 v2 v3 v4 v5 v6 v7 v8 v9 where
    vs: "field_value m ''title'' = Inr v1" "field_value m ''short_title'' = Inr v2"
        "field_value m ''publisher'' = Inr v3" "field_value m ''year'' = Inr v4"
        "field_value m ''language'' = Inr v5" "field_value m ''country_scope'' = Inr v6"
        "field_value m ''summary'' = Inr v7" "field_value m ''indicators_covered'' = Inr v8"
        "field_value m ''evidence_level'' = Inr v9"
    and md: "md = \<lparr>title = v1,
            short_title = (if length v2 > 50 then take 47 v2 @ ''...'' else v2),
            publisher = v3, year = v4, language = v5, country_scope = v6,
            summary = v7, indicators_covered = v8, evidence_level = v9\<rparr>"
    unfolding validate_metadata_def bind_err_Inr by auto
  show ?thesis
    using vs [THEN field_value_nonempty] by (simp add: md)
qed

text \<open>
  Claim C4 says that the nine descriptive fields of every entry are non-empty, on
  either path. The fallback path has no step like the one above. For the document
  \<open>WASH/2011.pdf\<close>, with the model unreachable, the fallback resolver deletes the year
  from the file name and nothing is left: the entry that \<open>process_document\<close> returns
  has an empty \<open>title\<close> and an empty \<open>short_title\<close>.
\<close>

theorem fallback_title_empty:
  "(case process_document world_offline (init kb0 Missing) [(''WASH/2011.pdf'', ''%PDF'')]
           \<lparr>base = kb0, rel = ''WASH/2011.pdf''\<rparr> False of
      Inr (Some entry) \<Rightarrow>
        map_of entry ''title'' = Some (CStr []) \<and> map_of entry ''short_title'' = Some (CStr [])
    | _ \<Rightarrow> False)"
  by code_simp

text \<open>
  Claim C8. The fallback metadata is a function of the file name and the path alone:
  two calls whose paths have the same stem and the same text give the same metadata,
  whatever the state of the cataloguer in each call.
\<close>

theorem fallback_depends_on_name_and_path:
  "path_stem p = path_stem q \<Longrightarrow> path_str p = path_str q \<Longrightarrow>
     get_fallback_metadata s1 p = get_fallback_metadata s2 q"
  by (simp add: get_fallback_metadata_def)

theorem fallback_depends_on_name_and_path_witness:
  "path_stem \<lparr>base = kb0, rel = ''WASH/Sphere 2011.pdf''\<rparr>
     = path_stem \<lparr>base = [''/''], rel = ''kb/WASH/Sphere 2011.pdf''\<rparr>
   \<and> path_str \<lparr>base = kb0, rel = ''WASH/Sphere 2011.pdf''\<rparr>
       = path_str \<lparr>base = [''/''], rel = ''kb/WASH/Sphere 2011.pdf''\<rparr>
   \<and> get_fallback_metadata (init kb0 Missing) \<lparr>base = kb0, rel = ''WASH/Sphere 2011.pdf''\<rparr>
       = get_fallback_metadata
           (init [''/''] (Table [example_row ''WASH_STD_WHO_2011_v1'' ''kb/a.pdf'' ''sha:a'']))
           \<lparr>base = [''/''], rel = ''kb/WASH/Sphere 2011.pdf''\<rparr>"
proof -
  have stems: "path_stem \<lparr>base = kb0, rel = ''WASH/Sphere 2011.pdf''\<rparr>
     = path_stem \<lparr>base = [''/''], rel = ''kb/WASH/Sphere 2011.pdf''\<rparr>"
    by code_simp
  have texts: "path_str \<lparr>base = kb0, rel = ''WASH/Sphere 2011.pdf''\<rparr>
       = path_str \<lparr>base = [''/''], rel = ''kb/WASH/Sphere 2011.pdf''\<rparr>"
    by code_simp
  show ?thesis
    using stems texts fallback_depends_on_name_and_path [OF stems texts] by blast
qed

subsection \<open>One document\<close>

text \<open>
  Claim C7. When the relative path of a document is a key of the prior catalog and the
  checksum stored in that entry equals the checksum of the file, \<open>process_document\<close>
  without \<open>force_reprocess\<close> returns the prior entry itself, every field as it was.
\<close>

theorem skip_returns_prior_entry:
  assumes "relative_to file_path (kb_path self) = Inr relative_path"
    and "map_of (existing_catalog self) (CStr relative_path) = Some existing_entry"
    and "map_of existing_entry ''checksum_sha256''
           = Some (CStr (get_file_checksum w files file_path))"
  shows "process_document w self files file_path False = Inr (Some existing_entry)"
  using assms by (simp add: process_document_def bind_err_def)

theorem skip_returns_prior_entry_witness:
  "process_document world_offline
     (init kb0 (Table [example_row ''WASH_STD_WHO_2011_v1'' ''WASH/a.pdf'' ''sha:bytes'']))
     [(''WASH/a.pdf'', ''bytes'')] \<lparr>base = kb0, rel = ''WASH/a.pdf''\<rparr> False
   = Inr (Some (example_row ''WASH_STD_WHO_2011_v1'' ''WASH/a.pdf'' ''sha:bytes''))"
proof -
  let ?s = "init kb0 (Table [example_row ''WASH_STD_WHO_2011_v1'' ''WASH/a.pdf'' ''sha:bytes''])"
  let ?p = "\<lparr>base = kb0, rel = ''WASH/a.pdf''\<rparr>"
  let ?e = "example_row ''WASH_STD_WHO_2011_v1'' ''WASH/a.pdf'' ''sha:bytes''"
  have below: "relative_to ?p (kb_path ?s) = Inr ''WASH/a.pdf''"
    by code_simp
  have known: "map_of (existing_catalog ?s) (CStr ''WASH/a.pdf'') = Some ?e"
    by code_simp
  have same: "map_of ?e ''checksum_sha256''
      = Some (CStr (get_file_checksum world_offline [(''WASH/a.pdf'', ''bytes'')] ?p))"
    by code_simp
  show ?thesis
    by (rule skip_returns_prior_entry [OF below known same])
qed

subsection \<open>The language hint\<close>

lemma lower_f: "lower_char CHR ''f'' = CHR ''f''" "lower_char CHR ''F'' = CHR ''f''"
  "lower_char CHR ''r'' = CHR ''r''" "lower_char CHR ''R'' = CHR ''r''"
  by code_simp+

lemma fr_anywhere:
  assumes "s = pre @ [a, b] @ post"
    and "a = CHR ''f'' \<or> a = CHR ''F''" and "b = CHR ''r'' \<or> b = CHR ''R''"
  shows "sublist ''fr'' (str_lower s)"
proof -
  have "str_lower s = str_lower pre @ ''fr'' @ str_lower post"
    using assms by (auto simp: str_lower_def lower_f)
  then show ?thesis by (metis sublist_appendI)
qed

lemma hint_inside: "sublist a b \<Longrightarrow> sublist b n \<Longrightarrow> sublist a n"
  by (rule sublist_order.order.trans)

lemma french_hit: "list_ex (\<lambda>lang. sublist lang n) french_hints \<longleftrightarrow> sublist ''fr'' n"
proof -
  have a: "sublist ''fr'' ''french''" by code_simp
  have b: "sublist ''fr'' (''fran'' @ [CHR 0xE7] @ ''ais'')" by code_simp
  show ?thesis
    unfolding french_hints_def using hint_inside [OF a] hint_inside [OF b] by auto
qed

lemma spanish_hit:
  "list_ex (\<lambda>lang. sublist lang n) spanish_hints \<longleftrightarrow> sublist ''es'' n \<or> sublist ''spanish'' n"
proof -
  have b: "sublist ''es'' (''espa'' @ [CHR 0xF1] @ ''ol'')" by code_simp
  show ?thesis
    unfolding spanish_hints_def using hint_inside [OF b] by auto
qed

lemma arabic_hit: "list_ex (\<lambda>lang. sublist lang n) arabic_hints \<longleftrightarrow> sublist ''ar'' n"
proof -
  have a: "sublist ''ar'' ''arabic''" by code_simp
  show ?thesis
    unfolding arabic_hints_def using hint_inside [OF a] by auto
qed

text \<open>
  Claim C9. The language hint of the fallback resolver is a substring test on the
  lower-cased stem. A stem that holds \<open>f\<close> or \<open>F\<close> followed by \<open>r\<close> or \<open>R\<close> at any place
  gives \<open>FR\<close>, as the word \<open>Framework\<close> does; and the tests run in the order French,
  Spanish, Arabic, the first that succeeds deciding, with \<open>EN\<close> when none does. (Every
  French hint holds \<open>fr\<close>, so the French test is the test for \<open>fr\<close>.)
\<close>

theorem fallback_language_by_substring:
  "((\<exists>pre a b post. path_stem p = pre @ [a, b] @ post
        \<and> (a = CHR ''f'' \<or> a = CHR ''F'') \<and> (b = CHR ''r'' \<or> b = CHR ''R''))
      \<longrightarrow> language (get_fallback_metadata self p) = ''FR'')
   \<and> language (get_fallback_metadata self p) =
       (if sublist ''fr'' (str_lower (path_stem p)) then ''FR''
        else if sublist ''es'' (str_lower (path_stem p))
                \<or> sublist ''spanish'' (str_lower (path_stem p)) then ''ES''
        else if sublist ''ar'' (str_lower (path_stem p)) then ''AR''
        else ''EN'')"
proof -
  have chain: "language (get_fallback_metadata self p) =
       (if sublist ''fr'' (str_lower (path_stem p)) then ''FR''
        else if sublist ''es'' (str_lower (path_stem p))
                \<or> sublist ''spanish'' (str_lower (path_stem p)) then ''ES''
        else if sublist ''ar'' (str_lower (path_stem p)) then ''AR''
        else ''EN'')"
    by (simp add: get_fallback_metadata_def Let_def detect_language_def
          french_hit spanish_hit arabic_hit)
  moreover have "language (get_fallback_metadata self p) = ''FR''"
    if "\<exists>pre a b post. path_stem p = pre @ [a, b] @ post
        \<and> (a = CHR ''f'' \<or> a = CHR ''F'') \<and> (b = CHR ''r'' \<or> b = CHR ''R'')"
  proof -
    from that obtain pre a b post where "path_stem p = pre @ [a, b] @ post"
      "a = CHR ''f'' \<or> a = CHR ''F''" "b = CHR ''r'' \<or> b = CHR ''R''" by blast
    then have "sublist ''fr'' (str_lower (path_stem p))" by (rule fr_anywhere)
    with chain show ?thesis by simp
  qed
  ultimately show ?thesis by blast
qed

theorem fallback_language_by_substring_witness:
  "path_stem \<lparr>base = kb0, rel = ''Health/Monitoring Framework.pdf''\<rparr>
     = ''Monitoring '' @ [CHR ''F'', CHR ''r''] @ ''amework''
   \<and> language (get_fallback_metadata (init kb0 Missing)
        \<lparr>base = kb0, rel = ''Health/Monitoring Framework.pdf''\<rparr>) = ''FR''"
proof -
  have cut: "path_stem \<lparr>base = kb0, rel = ''Health/Monitoring Framework.pdf''\<rparr>
     = ''Monitoring '' @ [CHR ''F'', CHR ''r''] @ ''amework''"
    by code_simp
  then show ?thesis
    using fallback_language_by_substring
      [of "\<lparr>base = kb0, rel = ''Health/Monitoring Framework.pdf''\<rparr>" "init kb0 Missing"]
    by blast
qed

subsection \<open>The incremental run\<close>

text \<open>
  Claim C5. With no catalog file and no eligible document below the knowledge base,
  the incremental run returns the empty list of entries and leaves the disk as it is.
  The run has no failure to report: every exception inside it is caught.
\<close>

theorem empty_knowledge_base_empty_catalog:
  "eligible_files (init kb Missing) files = [] \<Longrightarrow>
     catalog_all_documents w (init kb Missing) files rename_files True = (files, [])"
  by (simp add: catalog_all_documents_def scan_for_file_changes_def clean_deleted_entries_def
        init_def load_existing_catalog_def Let_def)

theorem empty_knowledge_base_empty_catalog_witness:
  "eligible_files (init kb0 Missing) [(''notes.txt'', ''n''), (''WASH/.draft.pdf'', ''d'')] = []
   \<and> catalog_all_documents world_offline (init kb0 Missing)
        [(''notes.txt'', ''n''), (''WASH/.draft.pdf'', ''d'')] False True
       = ([(''notes.txt'', ''n''), (''WASH/.draft.pdf'', ''d'')], [])"
proof -
  have none: "eligible_files (init kb0 Missing) [(''notes.txt'', ''n''), (''WASH/.draft.pdf'', ''d'')] = []"
    by code_simp
  show ?thesis
    using none empty_knowledge_base_empty_catalog [OF none] by blast
qed

lemma new_files_not_catalogued:
  assumes "f \<in> set (fst (scan_for_file_changes self files))"
  shows "map_of (existing_catalog self) (CStr (rel f)) = None"
proof -
  from assms have "CStr (rel f) \<notin> fst ` set (existing_catalog self)"
    by (force simp: scan_for_file_changes_def Let_def)
  then show ?thesis by (simp add: map_of_eq_None_iff)
qed

lemma update_fresh_key: "k \<notin> fst ` set al \<Longrightarrow> AList.update k v al = al @ [(k, v)]"
  by (induction al) auto

lemma load_rows_distinct:
  assumes "\<forall>r\<in>set rows. map_of r ''file_path'' \<noteq> None"
    and "distinct (map (\<lambda>r. map_of r ''file_path'') rows)"
    and "\<forall>r\<in>set rows. the (map_of r ''file_path'') \<notin> fst ` set acc"
  shows "load_rows acc rows = acc @ map (\<lambda>r. (the (map_of r ''file_path''), r)) rows"
  using assms
proof (induction rows arbitrary: acc)
  case Nil
  then show ?case by simp
next
  case (Cons r rows)
  from Cons.prems(1) obtain k where k: "map_of r ''file_path'' = Some k" by auto
  have fresh: "k \<notin> fst ` set acc" using Cons.prems(3) k by auto
  have later: "\<forall>r'\<in>set rows. the (map_of r' ''file_path'') \<notin> fst ` set (acc @ [(k, r)])"
  proof
    fix r' assume r': "r' \<in> set rows"
    then obtain k' where k': "map_of r' ''file_path'' = Some k'" using Cons.prems(1) by auto
    have "map_of r ''file_path'' \<notin> (\<lambda>r. map_of r ''file_path'') ` set rows"
      using Cons.prems(2) by simp
    then have "map_of r' ''file_path'' \<noteq> map_of r ''file_path''"
      using r' by (metis image_eqI)
    then have "k' \<noteq> k" using k k' by simp
    moreover have "the (map_of r' ''file_path'') \<notin> fst ` set acc"
      using Cons.prems(3) r' by simp
    then have "k' \<notin> fst ` set acc" using k' by simp
    ultimately show "the (map_of r' ''file_path'') \<notin> fst ` set (acc @ [(k, r)])"
      using k' by simp
  qed
  have "load_rows (acc @ [(k, r)]) rows
      = (acc @ [(k, r)]) @ map (\<lambda>r. (the (map_of r ''file_path''), r)) rows"
    using Cons.prems(1,2) later by (intro Cons.IH) auto
  then show ?case using k fresh by (simp add: update_fresh_key)
qed

text \<open>
  As far as the rows go, a run without changes hands back what was loaded: when every
  row has a \<open>file_path\<close>, no two rows have the same one, and \<open>scan_for_file_changes\<close>
  reports no new and no deleted file, the incremental run returns the rows of the
  table, in their order, and touches no file.
\<close>

lemma no_change_returns_loaded_rows:
  assumes "\<forall>r\<in>set rows. map_of r ''file_path'' \<noteq> None"
    and "distinct (map (\<lambda>r. map_of r ''file_path'') rows)"
    and "scan_for_file_changes (init kb (Table rows)) files = ([], [])"
  shows "catalog_all_documents w (init kb (Table rows)) files rename_files True = (files, rows)"
proof -
  have "load_rows [] rows = [] @ map (\<lambda>r. (the (map_of r ''file_path''), r)) rows"
    using assms(1,2) by (intro load_rows_distinct) auto
  then have "map snd (existing_catalog (init kb (Table rows))) = rows"
    by (simp add: init_def load_existing_catalog_def comp_def)
  then have "clean_deleted_entries (init kb (Table rows)) [] = rows"
    by (simp add: clean_deleted_entries_def case_prod_unfold)
  then show ?thesis
    using assms(3) by (simp add: catalog_all_documents_def)
qed

text \<open>
  Claim C1 says that a second incremental run with no change on disk leaves the catalog
  file as the first run wrote it, byte for byte. It does not. The first run, from no
  catalog and the one document of \<open>one_file\<close>, writes \<open>first_catalog\<close>, an entry
  whose \<open>license\<close> (like eight more fields) is the empty text. The second run finds
  nothing new and nothing deleted, yet it reads each empty field as a float that is
  not a number, hands the row on as it is, and writes \<open>nan\<close> where the file had
  nothing: the file is now \<open>second_catalog\<close>.
\<close>

theorem second_run_rewrites_empty_fields:
  "sync_incremental world_offline kb0 one_file None = Some first_catalog
   \<and> scan_for_file_changes (init kb0 (open_catalog world_offline (Some first_catalog)))
         one_file = ([], [])
   \<and> sync_incremental world_offline kb0 one_file (Some first_catalog) = Some second_catalog
   \<and> second_catalog \<noteq> first_catalog"
proof -
  have run1: "sync_incremental world_offline kb0 one_file None = Some first_catalog"
    by code_simp
  have quiet: "scan_for_file_changes (init kb0 (open_catalog world_offline (Some first_catalog)))
         one_file = ([], [])"
    by code_simp
  have run2: "sync_incremental world_offline kb0 one_file (Some first_catalog)
                = Some second_catalog"
    by code_simp
  have differ: "second_catalog \<noteq> first_catalog"
    by code_simp
  show ?thesis using run1 quiet run2 differ by blast
qed

text \<open>
  Claim C2 says that a document whose bytes changed under the same path gets a new
  entry in the next incremental run. The run never looks at it: only the new paths
  reach \<open>process_document\<close>. Here \<open>WASH/a.pdf\<close> is catalogued with the checksum of its
  old bytes and has new bytes on disk; the run returns both rows as they were, the
  stale checksum included, although \<open>process_document\<close>, called on that document, would
  compare the checksums and build a fresh entry.
\<close>

theorem modified_document_not_regenerated:
  "get_file_checksum world_offline two_files \<lparr>base = kb0, rel = ''WASH/a.pdf''\<rparr> = ''sha:new bytes''
   \<and> map_of (existing_catalog (init kb0 (Table two_rows))) (CStr ''WASH/a.pdf'')
       = Some (example_row ''WASH_STD_WHO_2011_v1'' ''WASH/a.pdf'' ''sha:old bytes'')
   \<and> catalog_all_documents world_offline (init kb0 (Table two_rows)) two_files False True
       = (two_files, two_rows)
   \<and> (case process_document world_offline (init kb0 (Table two_rows)) two_files
              \<lparr>base = kb0, rel = ''WASH/a.pdf''\<rparr> False of
         Inr (Some entry) \<Rightarrow> map_of entry ''checksum_sha256'' = Some (CStr ''sha:new bytes'')
       | _ \<Rightarrow> False)"
  by code_simp

subsection \<open>The full scan\<close>

lemma map_of_moved:
  "k \<noteq> old \<Longrightarrow> k \<noteq> new \<Longrightarrow>
     map_of (map (\<lambda>(r, bytes). if r = old then (new, bytes) else (r, bytes)) files) k
       = map_of files k"
  by (induction files) auto

lemma rename_file_keeps:
  assumes "rename_file files original new_filename = (files', new_path)"
    and "map_of files k \<noteq> None" and "k \<noteq> rel original"
  shows "map_of files' k = map_of files k \<and> (new_path \<noteq> original \<longrightarrow> rel new_path \<noteq> k)"
proof (cases "sibling original new_filename \<noteq> original
              \<and> map_of files (rel (sibling original new_filename)) = None
              \<and> map_of files (rel original) \<noteq> None")
  case True
  then have moved: "files' = map (\<lambda>(r, bytes). if r = rel original
                        then (rel (sibling original new_filename), bytes) else (r, bytes)) files"
    and np: "new_path = sibling original new_filename"
    using assms(1) by (auto simp: rename_file_def Let_def)
  have "k \<noteq> rel (sibling original new_filename)" using True assms(2) by auto
  then show ?thesis using moved np assms(3) by (simp add: map_of_moved)
next
  case False
  then have "files' = files" "new_path = original"
    using assms(1) by (auto simp: rename_file_def Let_def)
  then show ?thesis by simp
qed

lemma catalog_entry_file_path:
  "map_of (catalog_entry w file_path relative_path current_checksum m sector doc_type doc_id)
     ''file_path'' = Some (CStr relative_path)"
  by (simp add: catalog_entry_def)

lemma extract_text_same_bytes:
  "map_of files' (rel fp) = map_of files (rel fp) \<Longrightarrow>
     extract_text w files' fp = extract_text w files fp"
  by (simp add: extract_text_def extract_text_from_pdf_def extract_text_from_docx_def)

lemma process_document_forced_None:
  "base fp = kb_path self \<Longrightarrow> extract_text w files fp = Some [] \<Longrightarrow>
     process_document w self files fp True = Inr None"
  by (simp add: process_document_def relative_to_def bind_err_def resolve_document_def)

lemma process_document_forced_Some:
  assumes "process_document w self files file_path True = Inr (Some entry)"
  shows "base file_path = kb_path self"
    and "map_of entry ''file_path'' = Some (CStr (rel file_path))"
    and "extract_text w files file_path \<noteq> Some []"
proof -
  show b: "base file_path = kb_path self"
    using assms by (auto simp: process_document_def relative_to_def bind_err_def split: if_splits)
  then have r: "resolve_document w self files file_path (rel file_path)
                  (get_file_checksum w files file_path) = Inr (Some entry)"
    using assms by (simp add: process_document_def relative_to_def bind_err_def)
  show "extract_text w files file_path \<noteq> Some []"
    using r by (auto simp: resolve_document_def)
  show "map_of entry ''file_path'' = Some (CStr (rel file_path))"
    using r
    by (auto simp: resolve_document_def bind_err_def Let_def catalog_entry_file_path
          split: option.splits if_splits sum.splits)
qed

lemma process_one_keeps:
  assumes fp: "base fp = kb_path self"
    and there: "map_of files (rel fp) \<noteq> None"
    and empty: "extract_text w files fp = Some []"
    and clean: "\<forall>entry\<in>set entries. map_of entry ''file_path'' \<noteq> Some (CStr (rel fp))"
    and step: "process_one w self rename_files False file_path (files, entries) = (files', entries')"
  shows "map_of files' (rel fp) = map_of files (rel fp)
         \<and> (\<forall>entry\<in>set entries'. map_of entry ''file_path'' \<noteq> Some (CStr (rel fp)))"
proof (cases "process_document w self files file_path True")
  case (Inl e)
  then show ?thesis using step clean by (simp add: process_one_def)
next
  case (Inr result)
  show ?thesis
  proof (cases result)
    case None
    then show ?thesis using Inr step clean by (simp add: process_one_def)
  next
    case (Some entry)
    have got: "process_document w self files file_path True = Inr (Some entry)"
      using Inr Some by simp
    have b: "base file_path = kb_path self"
      and stored: "map_of entry ''file_path'' = Some (CStr (rel file_path))"
      and readable: "extract_text w files file_path \<noteq> Some []"
      using process_document_forced_Some [OF got] by auto
    have other: "rel file_path \<noteq> rel fp"
    proof
      assume "rel file_path = rel fp"
      then have "file_path = fp" using b fp by simp
      then show False using readable empty by simp
    qed
    show ?thesis
    proof (cases "entry \<noteq> [] \<and> rename_files \<and> map_of entry ''doc_id'' \<noteq> None")
      case False
      then have "files' = files \<and> (entries' = entries \<or> entries' = entries @ [entry])"
        using False step got
        by (auto simp: process_one_def split: option.splits if_splits)
      then show ?thesis using clean stored other by auto
    next
      case True
      then obtain doc_id where d: "map_of entry ''doc_id'' = Some doc_id" by auto
      obtain fs2 new_path where
        rn: "rename_file files file_path
               (generate_new_filename self (cell_str doc_id) file_path) = (fs2, new_path)"
        by (cases "rename_file files file_path
               (generate_new_filename self (cell_str doc_id) file_path)") auto
      have keep: "map_of fs2 (rel fp) = map_of files (rel fp)"
        and fresh: "new_path \<noteq> file_path \<longrightarrow> rel new_path \<noteq> rel fp"
        using rename_file_keeps [OF rn there] other by auto
      have f': "files' = fs2" using step got True d rn
        by (auto simp: process_one_def Let_def split: if_splits)
      have e': "entries' = entries @ [if new_path \<noteq> file_path
            then AList.update ''file_path'' (CStr (rel new_path))
                   (AList.update ''file_name''
                      (CStr (generate_new_filename self (cell_str doc_id) file_path)) entry)
            else entry]"
        using step got True d rn by (auto simp: process_one_def Let_def split: if_splits)
      show ?thesis
        using f' e' keep fresh clean stored other by (auto simp: update_conv')
    qed
  qed
qed

lemma process_files_keeps:
  assumes "base fp = kb_path self"
    and "map_of files (rel fp) \<noteq> None"
    and "extract_text w files fp = Some []"
    and "\<forall>entry\<in>set entries. map_of entry ''file_path'' \<noteq> Some (CStr (rel fp))"
  shows "\<forall>entry\<in>set (snd (process_files w self rename_files False todo (files, entries))).
           map_of entry ''file_path'' \<noteq> Some (CStr (rel fp))"
  using assms
proof (induction todo arbitrary: files entries)
  case Nil
  then show ?case by simp
next
  case (Cons file_path todo)
  obtain files' entries' where
    step: "process_one w self rename_files False file_path (files, entries) = (files', entries')"
    by (cases "process_one w self rename_files False file_path (files, entries)") auto
  have kept: "map_of files' (rel fp) = map_of files (rel fp)"
    and clean': "\<forall>entry\<in>set entries'. map_of entry ''file_path'' \<noteq> Some (CStr (rel fp))"
    using process_one_keeps [OF Cons.prems(1,2,3,4) step] by auto
  have "extract_text w files' fp = Some []"
    using extract_text_same_bytes [OF kept] Cons.prems(3) by simp
  moreover have "map_of files' (rel fp) \<noteq> None" using kept Cons.prems(2) by simp
  ultimately show ?case
    using Cons.IH [OF Cons.prems(1) _ _ clean'] step by simp
qed

lemma eligible_on_disk:
  assumes "fp \<in> set (eligible_files self files)"
  shows "base fp = kb_path self" and "map_of files (rel fp) \<noteq> None"
proof -
  from assms obtain r where r: "r \<in> fst ` set files" and fp: "fp = \<lparr>base = kb_path self, rel = r\<rparr>"
    by (auto simp: eligible_files_def glob_def)
  show "base fp = kb_path self" using fp by simp
  show "map_of files (rel fp) \<noteq> None"
    using r fp by (simp add: map_of_eq_None_iff)
qed

text \<open>
  Claim C10. In a full scan, a document that is on disk and whose extracted text is
  empty has no entry in the output: \<open>process_document\<close> returns \<open>None\<close> for it, and no
  entry of the returned catalog carries its path, whatever the prior catalog held and
  whether or not files are renamed.
\<close>

theorem unreadable_document_absent_in_full_scan:
  assumes "fp \<in> set (eligible_files self files)"
    and "extract_text w files fp = Some []"
  shows "process_document w self files fp True = Inr None
         \<and> (\<forall>entry\<in>set (snd (catalog_all_documents w self files rename_files False)).
               map_of entry ''file_path'' \<noteq> Some (CStr (rel fp)))"
proof -
  have b: "base fp = kb_path self" and there: "map_of files (rel fp) \<noteq> None"
    using eligible_on_disk [OF assms(1)] by auto
  have "\<forall>entry\<in>set (snd (process_files w self rename_files False (eligible_files self files)
                            (files, []))).
          map_of entry ''file_path'' \<noteq> Some (CStr (rel fp))"
    by (rule process_files_keeps [OF b there assms(2)]) simp
  then show ?thesis
    using process_document_forced_None [OF b assms(2)]
    by (simp add: catalog_all_documents_def)
qed

theorem unreadable_document_absent_in_full_scan_witness:
  "\<lparr>base = kb0, rel = ''WASH/a.pdf''\<rparr> \<in> set (eligible_files (init kb0 (Table two_rows)) torn_files)
   \<and> extract_text world_offline torn_files \<lparr>base = kb0, rel = ''WASH/a.pdf''\<rparr> = Some []
   \<and> map_of (existing_catalog (init kb0 (Table two_rows))) (CStr ''WASH/a.pdf'') \<noteq> None
   \<and> process_document world_offline (init kb0 (Table two_rows)) torn_files
        \<lparr>base = kb0, rel = ''WASH/a.pdf''\<rparr> True = Inr None
   \<and> Some (CStr ''WASH/a.pdf'')
        \<notin> set (map (\<lambda>entry. map_of entry ''file_path'')
             (snd (catalog_all_documents world_offline (init kb0 (Table two_rows)) torn_files
                     True False)))
   \<and> length (snd (catalog_all_documents world_offline (init kb0 (Table two_rows)) torn_files
                     True False)) = 1"
proof -
  let ?fp = "\<lparr>base = kb0, rel = ''WASH/a.pdf''\<rparr>"
  have listed: "?fp \<in> set (eligible_files (init kb0 (Table two_rows)) torn_files)"
    by code_simp
  have empty: "extract_text world_offline torn_files ?fp = Some []"
    by code_simp
  have prior: "map_of (existing_catalog (init kb0 (Table two_rows))) (CStr ''WASH/a.pdf'') \<noteq> None"
    by code_simp
  have one: "length (snd (catalog_all_documents world_offline (init kb0 (Table two_rows))
                     torn_files True False)) = 1"
    by code_simp
  show ?thesis
    using listed empty prior one
      unreadable_document_absent_in_full_scan [OF listed empty, of True]
    by auto
qed

end
